theory Spec2Isabelle
  imports
    Complex_Main
    "HOL-Library.Char_ord"
    "HOL-Library.List_Lexorder"
    "HOL-Library.Product_Lexorder"
    "HOL-Library.Log_Nat"
begin

section \<open>Data model\<close>

text \<open>
  The program reads one JSON document and works on the dictionaries under
  \<^verbatim>\<open>Usage\<close>. A Python dictionary is modelled as an association list in insertion
  order whose keys are pairwise distinct (\<open>distinct (keys d)\<close>). The values that the
  model covers are JSON integers, JSON strings and JSON null; floats, booleans, arrays and
  objects as counter values are outside the model. Strings are byte lists, which agrees
  with Python's code points on ASCII text.
\<close>

datatype jval = JInt int | JStr string | JNull

text \<open>
  Python exceptions, named after the spec's taxonomy where it has a name:
  \<^item> \<open>FormatError\<close>: the \<^verbatim>\<open>ValueError\<close> of \<^verbatim>\<open>datetime.strptime\<close>;
  \<^item> \<open>ValueConversion\<close>: the \<^verbatim>\<open>ValueError\<close> or \<^verbatim>\<open>TypeError\<close> of \<^verbatim>\<open>int(v)\<close>;
  \<^item> \<open>TypeError\<close>: an operator applied to unsupported operand types
    (\<^verbatim>\<open>'5' > 0\<close>, \<^verbatim>\<open>0 + '5'\<close>);
  \<^item> \<open>EmptySequence\<close>: the \<^verbatim>\<open>ValueError\<close> of \<^verbatim>\<open>min\<close> or \<^verbatim>\<open>max\<close> on an empty iterable;
  \<^item> \<open>ZeroDivisionError\<close>, \<open>OverflowError\<close>, \<open>KeyError\<close>: as in Python.
\<close>

datatype py_error =
    FormatError
  | ValueConversion
  | TypeError
  | EmptySequence
  | ZeroDivisionError
  | OverflowError
  | KeyError

type_synonym 'v dict = "(string \<times> 'v) list"

definition keys :: "('k \<times> 'v) list \<Rightarrow> 'k list" where
  "keys d = map fst d"

definition values_of :: "('k \<times> 'v) list \<Rightarrow> 'v list" where
  "values_of d = map snd d"

definition items :: "('k \<times> 'v) list \<Rightarrow> ('k \<times> 'v) list" where
  "items d = d"

definition getitem :: "('k \<times> 'v) list \<Rightarrow> 'k \<Rightarrow> py_error + 'v" where
  "getitem d k = (case map_of d k of None \<Rightarrow> Inl KeyError | Some v \<Rightarrow> Inr v)"

section \<open>The built-in \<^verbatim>\<open>int()\<close>\<close>

text \<open>
  \<^verbatim>\<open>int(v)\<close> on an integer is the integer; on \<^verbatim>\<open>None\<close> it raises; on a string it
  strips surrounding whitespace, reads an optional sign and then decimal digits, where
  single underscores may separate digits. Anything else raises. The interpreter's limit
  on the length of a decimal text (4300 digits by default in recent versions) is not
  modelled.
\<close>

definition is_space :: "char \<Rightarrow> bool" where
  "is_space c = (c \<in> set [CHR '' '', CHR 0x09, CHR 0x0A, CHR 0x0B, CHR 0x0C, CHR 0x0D,
                           CHR 0x1C, CHR 0x1D, CHR 0x1E, CHR 0x1F])"

definition is_digit :: "char \<Rightarrow> bool" where
  "is_digit c = (c \<in> set ''0123456789'')"

definition digit_val :: "char \<Rightarrow> int" where
  "digit_val c = int (of_char c) - 48"

definition strip :: "string \<Rightarrow> string" where
  "strip s = rev (dropWhile is_space (rev (dropWhile is_space s)))"

text \<open>
  \<open>digits_value acc prev s\<close> reads the digits of \<open>s\<close> after the accumulated value
  \<open>acc\<close>; \<open>prev\<close> tells whether the previous character was a digit, which is what an
  underscore needs before it and what the end of the text needs.
\<close>

fun digits_value :: "int \<Rightarrow> bool \<Rightarrow> string \<Rightarrow> int option" where
  "digits_value acc prev [] = (if prev then Some acc else None)"
| "digits_value acc prev (c # cs) =
     (if is_digit c then digits_value (acc * 10 + digit_val c) True cs
      else if c = CHR ''_'' \<and> prev then digits_value acc False cs
      else None)"

definition int_of_str :: "string \<Rightarrow> py_error + int" where
  "int_of_str s =
     (case strip s of
        [] \<Rightarrow> Inl ValueConversion
      | c # cs \<Rightarrow>
          (if c = CHR ''-'' then
             (case digits_value 0 False cs of None \<Rightarrow> Inl ValueConversion | Some n \<Rightarrow> Inr (- n))
           else if c = CHR ''+'' then
             (case digits_value 0 False cs of None \<Rightarrow> Inl ValueConversion | Some n \<Rightarrow> Inr n)
           else
             (case digits_value 0 False (c # cs) of None \<Rightarrow> Inl ValueConversion | Some n \<Rightarrow> Inr n)))"

fun py_int :: "jval \<Rightarrow> py_error + int" where
  "py_int (JInt n) = Inr n"
| "py_int (JStr s) = int_of_str s"
| "py_int JNull = Inl ValueConversion"

section \<open>Grouping Aggregator: \<^verbatim>\<open>_get_mapped_sum\<close>\<close>

text \<open>
  \<^verbatim>\<open>mapped[g] += n\<close> on a \<^verbatim>\<open>defaultdict(int)\<close>: an existing key keeps its place and
  gets \<open>n\<close> added, a new key is appended with \<open>0 + n\<close>.
\<close>

fun dict_add :: "'g \<Rightarrow> int \<Rightarrow> ('g \<times> int) list \<Rightarrow> ('g \<times> int) list" where
  "dict_add g n [] = [(g, 0 + n)]"
| "dict_add g n ((h, c) # rest) =
     (if h = g then (h, c + n) # rest else (h, c) # dict_add g n rest)"

text \<open>
  The loop \<^verbatim>\<open>for k in data.keys(): mapped[map(k)] += int(data[k])\<close>. Python evaluates
  the subscript \<^verbatim>\<open>map(k)\<close> of the target first, then the right-hand side; the first
  exception ends the loop and the function.
\<close>

fun get_mapped_sum_loop ::
  "(string \<Rightarrow> py_error + 'g) \<Rightarrow> jval dict \<Rightarrow> string list \<Rightarrow> ('g \<times> int) list
     \<Rightarrow> py_error + ('g \<times> int) list" where
  "get_mapped_sum_loop mapf data [] mapped = Inr mapped"
| "get_mapped_sum_loop mapf data (k # ks) mapped =
     (case mapf k of
        Inl e \<Rightarrow> Inl e
      | Inr g \<Rightarrow>
          (case getitem data k of
             Inl e \<Rightarrow> Inl e
           | Inr v \<Rightarrow>
               (case py_int v of
                  Inl e \<Rightarrow> Inl e
                | Inr n \<Rightarrow> get_mapped_sum_loop mapf data ks (dict_add g n mapped))))"

definition get_mapped_sum ::
  "(string \<Rightarrow> py_error + 'g) \<Rightarrow> jval dict \<Rightarrow> py_error + ('g \<times> int) list" where
  "get_mapped_sum mapf data = get_mapped_sum_loop mapf data (keys data) []"

text \<open>The month classifier \<^verbatim>\<open>lambda x: x[0:7]\<close>: a slice never raises.\<close>

definition month_id :: "string \<Rightarrow> py_error + string" where
  "month_id x = Inr (take 7 x)"

section \<open>Series Builder: \<^verbatim>\<open>_split_tuples(sorted(mapped.items()))\<close>\<close>

text \<open>
  \<^verbatim>\<open>sorted\<close> on a list of pairs orders them lexicographically (first components, then
  second components); on a linear order every sorting algorithm returns the same list.
\<close>

definition py_sorted :: "('a::linorder) list \<Rightarrow> 'a list" where
  "py_sorted xs = sort xs"

definition split_tuples :: "('a \<times> 'b) list \<Rightarrow> 'a list \<times> 'b list" where
  "split_tuples tuple_list = (map fst tuple_list, map snd tuple_list)"

definition series_builder :: "(('g::linorder) \<times> int) list \<Rightarrow> 'g list \<times> int list" where
  "series_builder mapped = split_tuples (py_sorted (items mapped))"

section \<open>Dates: \<^verbatim>\<open>datetime.strptime(x, "%Y-%m-%d")\<close>\<close>

text \<open>
  The date arithmetic of Python's \<^verbatim>\<open>datetime\<close> module (proleptic Gregorian calendar, day
  1 is 0001-01-01), which the program calls for the weekday and for the day span.
\<close>

record date =
  year :: int
  month :: int
  day :: int

definition is_leap :: "int \<Rightarrow> bool" where
  "is_leap y = (y mod 4 = 0 \<and> (y mod 100 \<noteq> 0 \<or> y mod 400 = 0))"

definition days_before_year :: "int \<Rightarrow> int" where
  "days_before_year y = (y - 1) * 365 + (y - 1) div 4 - (y - 1) div 100 + (y - 1) div 400"

definition days_in_month :: "int \<Rightarrow> int \<Rightarrow> int" where
  "days_in_month y m =
     (if m = 2 \<and> is_leap y then 29
      else [31, 28, 31, 30, 31, 30, 31, 31, 30, 31, 30, 31] ! nat (m - 1))"

definition days_before_month :: "int \<Rightarrow> int \<Rightarrow> int" where
  "days_before_month y m =
     [0, 31, 59, 90, 120, 151, 181, 212, 243, 273, 304, 334] ! nat (m - 1)
       + (if m > 2 \<and> is_leap y then 1 else 0)"

definition toordinal :: "date \<Rightarrow> int" where
  "toordinal d = days_before_year (year d) + days_before_month (year d) (month d) + day d"

definition weekday :: "date \<Rightarrow> int" where
  "weekday d = (toordinal d + 6) mod 7"

text \<open>
  \<^verbatim>\<open>strptime\<close> turns the format into the regular expression
  \<^verbatim>\<open>(\d\d\d\d)-(1[0-2]|0[1-9]|[1-9])-(3[0-1]|[1-2]\d|0[1-9]|[1-9]| [1-9])\<close>,
  matches it at the start of the text, and raises \<^verbatim>\<open>ValueError\<close> when there is no
  match, when text remains after the match, or when the fields are not a date. The
  alternatives of a field are tried in the order written; \<open>month_alts\<close> and
  \<open>day_alts\<close> list the ways a field can match in that order, each with the text left.
\<close>

definition literal :: "char \<Rightarrow> string \<Rightarrow> string option" where
  "literal c s = (case s of [] \<Rightarrow> None | a # r \<Rightarrow> if a = c then Some r else None)"

definition year_field :: "string \<Rightarrow> (int \<times> string) option" where
  "year_field s =
     (case s of
        a # b # c # d # r \<Rightarrow>
          if is_digit a \<and> is_digit b \<and> is_digit c \<and> is_digit d
          then Some (((digit_val a * 10 + digit_val b) * 10 + digit_val c) * 10 + digit_val d, r)
          else None
      | _ \<Rightarrow> None)"

definition month_alts :: "string \<Rightarrow> (int \<times> string) list" where
  "month_alts s =
     (case s of
        a # b # r \<Rightarrow> if a = CHR ''1'' \<and> b \<in> set ''012'' then [(10 + digit_val b, r)] else []
      | _ \<Rightarrow> [])
     @ (case s of
        a # b # r \<Rightarrow> if a = CHR ''0'' \<and> b \<in> set ''123456789'' then [(digit_val b, r)] else []
      | _ \<Rightarrow> [])
     @ (case s of
        a # r \<Rightarrow> if a \<in> set ''123456789'' then [(digit_val a, r)] else []
      | _ \<Rightarrow> [])"

definition day_alts :: "string \<Rightarrow> (int \<times> string) list" where
  "day_alts s =
     (case s of
        a # b # r \<Rightarrow> if a = CHR ''3'' \<and> b \<in> set ''01'' then [(30 + digit_val b, r)] else []
      | _ \<Rightarrow> [])
     @ (case s of
        a # b # r \<Rightarrow> if a \<in> set ''12'' \<and> is_digit b then [(digit_val a * 10 + digit_val b, r)] else []
      | _ \<Rightarrow> [])
     @ (case s of
        a # b # r \<Rightarrow> if a = CHR ''0'' \<and> b \<in> set ''123456789'' then [(digit_val b, r)] else []
      | _ \<Rightarrow> [])
     @ (case s of
        a # r \<Rightarrow> if a \<in> set ''123456789'' then [(digit_val a, r)] else []
      | _ \<Rightarrow> [])
     @ (case s of
        a # b # r \<Rightarrow> if a = CHR '' '' \<and> b \<in> set ''123456789'' then [(digit_val b, r)] else []
      | _ \<Rightarrow> [])"

definition regex_match :: "string \<Rightarrow> ((int \<times> int \<times> int) \<times> string) option" where
  "regex_match s =
     (case year_field s of
        None \<Rightarrow> None
      | Some (y, r1) \<Rightarrow>
          (case literal CHR ''-'' r1 of
             None \<Rightarrow> None
           | Some r2 \<Rightarrow>
               (case List.maps
                       (\<lambda>(m, r3). case literal CHR ''-'' r3 of
                                     None \<Rightarrow> []
                                   | Some r4 \<Rightarrow> map (\<lambda>(d, r5). ((y, m, d), r5)) (day_alts r4))
                       (month_alts r2) of
                  [] \<Rightarrow> None
                | found # _ \<Rightarrow> Some found)))"

definition strptime :: "string \<Rightarrow> py_error + date" where
  "strptime s =
     (case regex_match s of
        None \<Rightarrow> Inl FormatError
      | Some ((y, m, d), rest) \<Rightarrow>
          if rest \<noteq> [] then Inl FormatError
          else if \<not> (1 \<le> y \<and> y \<le> 9999) then Inl FormatError
          else if \<not> (1 \<le> m \<and> m \<le> 12) then Inl FormatError
          else if \<not> (1 \<le> d \<and> d \<le> days_in_month y m) then Inl FormatError
          else Inr \<lparr>year = y, month = m, day = d\<rparr>)"

text \<open>The weekday classifier \<^verbatim>\<open>lambda x: datetime.strptime(x, DATEFORMAT).weekday()\<close>.\<close>

definition weekday_id :: "string \<Rightarrow> py_error + int" where
  "weekday_id x = (case strptime x of Inl e \<Rightarrow> Inl e | Inr d \<Rightarrow> Inr (weekday d))"

section \<open>Floating-point results\<close>

text \<open>
  The quotients and the mean are IEEE 754 doubles. A finite double is modelled by the
  rational number it denotes; \<open>double_of\<close> rounds an exact rational result to the nearest
  double, ties to even, with gradual underflow below the smallest normal double and
  infinity from \<open>2 ^ 1024\<close> on (a rounded magnitude whose binary exponent reaches 1024). \<open>Finite 0\<close> is \<^verbatim>\<open>0.0\<close> and \<open>NegZero\<close> is \<^verbatim>\<open>-0.0\<close>.
\<close>

datatype pyfloat = Finite rat | NegZero | PosInf | NegInf | NaN

definition pow2 :: "int \<Rightarrow> rat" where
  "pow2 e = (if 0 \<le> e then 2 ^ nat e else 1 / 2 ^ nat (- e))"

definition floor_log2 :: "rat \<Rightarrow> int" where
  "floor_log2 x =
     (let (p, q) = quotient_of x; d = bitlen p - bitlen q
      in if pow2 d \<le> x then d else d - 1)"

definition round_half_even :: "rat \<Rightarrow> int" where
  "round_half_even x =
     (let f = \<lfloor>x\<rfloor>; r = x - of_int f
      in if r < 1 / 2 then f else if 1 / 2 < r then f + 1 else if even f then f else f + 1)"

definition round_double :: "rat \<Rightarrow> rat" where
  "round_double x =
     (let e = max (floor_log2 \<bar>x\<bar>) (- 1022); q = pow2 (e - 52)
      in of_int (round_half_even (x / q)) * q)"

definition double_of :: "rat \<Rightarrow> pyfloat" where
  "double_of x =
     (let r = round_double x
      in if r = 0 then (if x < 0 then NegZero else Finite 0)
         else if 1024 \<le> floor_log2 \<bar>r\<bar> then (if 0 < r then PosInf else NegInf)
         else Finite r)"

text \<open>
  \<^verbatim>\<open>a / b\<close> on two Python integers: the correctly rounded quotient;
  \<^verbatim>\<open>ZeroDivisionError\<close> for a zero divisor and \<^verbatim>\<open>OverflowError\<close> when the quotient
  is too large for a double.
\<close>

definition py_truediv :: "int \<Rightarrow> int \<Rightarrow> py_error + pyfloat" where
  "py_truediv a b =
     (if b = 0 then Inl ZeroDivisionError
      else if a = 0 then Inr (if b < 0 then NegZero else Finite 0)
      else (case double_of (of_int a / of_int b) of
              PosInf \<Rightarrow> Inl OverflowError
            | NegInf \<Rightarrow> Inl OverflowError
            | r \<Rightarrow> Inr r))"

text \<open>\<^verbatim>\<open>x * 100\<close> on a double: rounded, and infinite on overflow (no exception).\<close>

definition times_100 :: "pyfloat \<Rightarrow> pyfloat" where
  "times_100 x =
     (case x of
        Finite r \<Rightarrow> double_of (r * 100)
      | NegZero \<Rightarrow> NegZero
      | PosInf \<Rightarrow> PosInf
      | NegInf \<Rightarrow> NegInf
      | NaN \<Rightarrow> NaN)"

definition percent :: "int \<Rightarrow> int \<Rightarrow> py_error + pyfloat" where
  "percent a b = (case py_truediv a b of Inl e \<Rightarrow> Inl e | Inr q \<Rightarrow> Inr (times_100 q))"

text \<open>
  \<^verbatim>\<open>np.mean\<close> of a list of integers. On the empty list NumPy warns and returns
  \<^verbatim>\<open>nan\<close>; it does not raise. On a non-empty list it is the float64 sum divided by
  the length; the model takes the sum exactly, which is what float64 gives while the
  partial sums stay below \<open>2 ^ 53\<close> in absolute value.
\<close>

definition np_mean :: "int list \<Rightarrow> pyfloat" where
  "np_mean xs =
     (if xs = [] then NaN
      else double_of (of_int (sum_list xs) / of_int (int (length xs))))"

section \<open>Formatting\<close>

definition digit_char :: "nat \<Rightarrow> char" where
  "digit_char n = ''0123456789'' ! n"

function str_nat :: "nat \<Rightarrow> string" where
  "str_nat n = (if n < 10 then [digit_char n] else str_nat (n div 10) @ [digit_char (n mod 10)])"
  by pat_completeness auto
termination
  by (relation "measure (\<lambda>n. n)") auto

text \<open>\<^verbatim>\<open>f"{n}"\<close> and \<^verbatim>\<open>f"{n:d}"\<close> on an integer.\<close>

definition format_d :: "int \<Rightarrow> string" where
  "format_d n = (if n < 0 then ''-'' @ str_nat (nat (- n)) else str_nat (nat n))"

text \<open>\<^verbatim>\<open>f"{n:,d}"\<close>: the digits in groups of three from the right, joined by commas.\<close>

definition pad3 :: "nat \<Rightarrow> string" where
  "pad3 n = [digit_char (n div 100), digit_char (n div 10 mod 10), digit_char (n mod 10)]"

function group_thousands :: "nat \<Rightarrow> string" where
  "group_thousands n =
     (if n < 1000 then str_nat n else group_thousands (n div 1000) @ '','' @ pad3 (n mod 1000))"
  by pat_completeness auto
termination
  by (relation "measure (\<lambda>n. n)") auto

definition format_comma_d :: "int \<Rightarrow> string" where
  "format_comma_d n =
     (if n < 0 then ''-'' @ group_thousands (nat (- n)) else group_thousands (nat n))"

text \<open>\<^verbatim>\<open>s.replace(",", "'")\<close>.\<close>

definition replace_comma :: "string \<Rightarrow> string" where
  "replace_comma s = map (\<lambda>c. if c = CHR '','' then CHR 0x27 else c) s"

text \<open>
  \<^verbatim>\<open>f"{x:.1f}"\<close>: the exact value of the double rounded to one decimal, ties to even;
  the sign of the double is kept, so a negative value that rounds to zero prints
  \<^verbatim>\<open>-0.0\<close>.
\<close>

definition format_1f :: "pyfloat \<Rightarrow> string" where
  "format_1f x =
     (case x of
        Finite r \<Rightarrow>
          (let t = nat \<bar>round_half_even (r * 10)\<bar>
           in (if r < 0 then ''-'' else []) @ str_nat (t div 10) @ ''.'' @ [digit_char (t mod 10)])
      | NegZero \<Rightarrow> ''-0.0''
      | PosInf \<Rightarrow> ''inf''
      | NegInf \<Rightarrow> ''-inf''
      | NaN \<Rightarrow> ''nan'')"

section \<open>Report sections\<close>

text \<open>
  A report section logs lines and may raise. Its model returns the lines logged by the
  call, in order, and the exception that ended it, if any: the lines logged before a
  raise stay in the log.
\<close>

type_synonym outcome = "string list \<times> py_error option"

text \<open>\<^verbatim>\<open>min(v for v in xs)\<close> and \<^verbatim>\<open>max(v for v in xs)\<close>.\<close>

definition py_min :: "('a::linorder) list \<Rightarrow> py_error + 'a" where
  "py_min xs =
     (case xs of
        [] \<Rightarrow> Inl EmptySequence
      | x # r \<Rightarrow> Inr (foldl (\<lambda>m y. if y < m then y else m) x r))"

definition py_max :: "('a::linorder) list \<Rightarrow> py_error + 'a" where
  "py_max xs =
     (case xs of
        [] \<Rightarrow> Inl EmptySequence
      | x # r \<Rightarrow> Inr (foldl (\<lambda>m y. if m < y then y else m) x r))"

text \<open>\<^verbatim>\<open>v > 0\<close> on a JSON value: defined on integers only.\<close>

definition gt_zero :: "jval \<Rightarrow> py_error + bool" where
  "gt_zero v = (case v of JInt n \<Rightarrow> Inr (0 < n) | JStr s \<Rightarrow> Inl TypeError | JNull \<Rightarrow> Inl TypeError)"

text \<open>\<^verbatim>\<open>[v for v in vs if v > 0]\<close>.\<close>

fun positive_values :: "jval list \<Rightarrow> py_error + jval list" where
  "positive_values [] = Inr []"
| "positive_values (v # vs) =
     (case gt_zero v of
        Inl e \<Rightarrow> Inl e
      | Inr b \<Rightarrow>
          (case positive_values vs of
             Inl e \<Rightarrow> Inl e
           | Inr r \<Rightarrow> Inr (if b then v # r else r)))"

text \<open>\<^verbatim>\<open>[int(v) for v in vs if v > 0]\<close>.\<close>

fun positive_ints :: "jval list \<Rightarrow> py_error + int list" where
  "positive_ints [] = Inr []"
| "positive_ints (v # vs) =
     (case gt_zero v of
        Inl e \<Rightarrow> Inl e
      | Inr b \<Rightarrow>
          if b then
            (case py_int v of
               Inl e \<Rightarrow> Inl e
             | Inr n \<Rightarrow> (case positive_ints vs of Inl e \<Rightarrow> Inl e | Inr r \<Rightarrow> Inr (n # r)))
          else positive_ints vs)"

text \<open>\<^verbatim>\<open>sum(v for v in vs)\<close>: starts from \<open>0\<close> and adds; a string or null operand raises.\<close>

fun py_sum_from :: "int \<Rightarrow> jval list \<Rightarrow> py_error + int" where
  "py_sum_from acc [] = Inr acc"
| "py_sum_from acc (v # vs) =
     (case v of
        JInt n \<Rightarrow> py_sum_from (acc + n) vs
      | JStr s \<Rightarrow> Inl TypeError
      | JNull \<Rightarrow> Inl TypeError)"

definition py_sum :: "jval list \<Rightarrow> py_error + int" where
  "py_sum vs = py_sum_from 0 vs"

definition general_info :: "jval dict \<Rightarrow> outcome" where
  "general_info app_opens =
     (case py_min (keys app_opens) of
        Inl e \<Rightarrow> ([], Some e)
      | Inr min_date \<Rightarrow>
     (case py_max (keys app_opens) of
        Inl e \<Rightarrow> ([], Some e)
      | Inr max_date \<Rightarrow>
     (case positive_values (values_of app_opens) of
        Inl e \<Rightarrow> ([], Some e)
      | Inr positive \<Rightarrow>
     (let used = int (length positive) in
     (case strptime max_date of
        Inl e \<Rightarrow> ([], Some e)
      | Inr dmax \<Rightarrow>
     (case strptime min_date of
        Inl e \<Rightarrow> ([], Some e)
      | Inr dmin \<Rightarrow>
     (let delta_days = toordinal dmax - toordinal dmin;
          logged =
            [''--- General Info ---'',
             ''Start Date: '' @ min_date,
             ''End Date:   '' @ max_date,
             ''Days:       '' @ format_d delta_days,
             ''  - used:   '' @ format_d used,
             ''  - unused: '' @ format_d (delta_days - used)]
      in
     (case positive_ints (values_of app_opens) of
        Inl e \<Rightarrow> (logged, Some e)
      | Inr opens \<Rightarrow>
          (logged @ [''Av. app-open per usage-day: '' @ format_1f (np_mean opens), ''''],
           None)))))))))"

definition messages_total :: "jval dict \<Rightarrow> jval dict \<Rightarrow> outcome" where
  "messages_total sent received =
     (case py_sum (values_of sent) of
        Inl e \<Rightarrow> ([], Some e)
      | Inr total_sent \<Rightarrow>
     (case py_sum (values_of received) of
        Inl e \<Rightarrow> ([], Some e)
      | Inr total_received \<Rightarrow>
          ([''--- Message Statistics ---'',
            replace_comma (''Send:     '' @ format_comma_d total_sent),
            replace_comma (''Received: '' @ format_comma_d total_received),
            ''''],
           None)))"

definition swipes_total :: "jval dict \<Rightarrow> jval dict \<Rightarrow> jval dict \<Rightarrow> outcome" where
  "swipes_total likes passes matches =
     (case py_sum (values_of likes) of
        Inl e \<Rightarrow> ([], Some e)
      | Inr total_likes \<Rightarrow>
     (case py_sum (values_of passes) of
        Inl e \<Rightarrow> ([], Some e)
      | Inr total_passes \<Rightarrow>
     (let total_swipes = total_likes + total_passes in
     (case py_sum (values_of matches) of
        Inl e \<Rightarrow> ([], Some e)
      | Inr total_matches \<Rightarrow>
     (let log2 =
            [''--- Swipe Statistics ---'',
             replace_comma (''Total Swipes: '' @ format_comma_d total_swipes)]
      in
     (case percent total_passes total_swipes of
        Inl e \<Rightarrow> (log2, Some e)
      | Inr passes_pct \<Rightarrow>
     (let log3 = log2 @
            [replace_comma (''- Passes: '' @ format_comma_d total_passes
                              @ '' ('' @ format_1f passes_pct @ ''%)'')]
      in
     (case percent total_likes total_swipes of
        Inl e \<Rightarrow> (log3, Some e)
      | Inr likes_pct \<Rightarrow>
     (let log4 = log3 @
            [replace_comma (''- Likes: '' @ format_comma_d total_likes
                              @ '' ('' @ format_1f likes_pct @ ''%)'')]
      in
     (case percent total_matches total_swipes of
        Inl e \<Rightarrow> (log4, Some e)
      | Inr matches_of_swipes \<Rightarrow>
     (case percent total_matches total_likes of
        Inl e \<Rightarrow> (log4, Some e)
      | Inr matches_of_likes \<Rightarrow>
          (log4 @
             [replace_comma (''- Matches: '' @ format_d total_matches
                               @ '' ('' @ format_1f matches_of_swipes @ ''% of swipes'')
                @ '', '' @ format_1f matches_of_likes @ ''% of likes)'',
              ''''],
           None))))))))))))"

section \<open>Auxiliary notions for the proofs\<close>

text \<open>What the loop body reads for key \<open>k\<close>: \<^verbatim>\<open>int(data[k])\<close>.\<close>

definition coerce_at :: "jval dict \<Rightarrow> string \<Rightarrow> py_error + int" where
  "coerce_at data k = (case getitem data k of Inl e \<Rightarrow> Inl e | Inr v \<Rightarrow> py_int v)"

section \<open>Properties of the Grouping Aggregator\<close>

lemma dict_add_sum: "sum_list (map snd (dict_add g n m)) = sum_list (map snd m) + n"
  by (induction g n m rule: dict_add.induct) auto

lemma dict_add_keys: "fst ` set (dict_add g n m) = insert g (fst ` set m)"
  by (induction g n m rule: dict_add.induct) auto

lemma dict_add_distinct: "distinct (map fst m) \<Longrightarrow> distinct (map fst (dict_add g n m))"
proof (induction g n m rule: dict_add.induct)
  case (1 g n)
  then show ?case by simp
next
  case (2 g n h c rest)
  show ?case
  proof (cases "h = g")
    case True
    then show ?thesis using "2.prems" by simp
  next
    case False
    have "h \<notin> fst ` set (dict_add g n rest)"
      using False "2.prems" by (simp add: dict_add_keys)
    then show ?thesis using False "2.IH" "2.prems" by simp
  qed
qed

lemma loop_distinct:
  "get_mapped_sum_loop mapf data ks acc = Inr mapped \<Longrightarrow> distinct (map fst acc)
     \<Longrightarrow> distinct (map fst mapped)"
proof (induction ks arbitrary: acc)
  case Nil
  then show ?case by simp
next
  case (Cons k ks)
  from Cons.prems(1) obtain g v n where
    rest: "get_mapped_sum_loop mapf data ks (dict_add g n acc) = Inr mapped"
    by (auto split: sum.splits)
  show ?case
    by (rule Cons.IH [OF rest]) (rule dict_add_distinct [OF Cons.prems(2)])
qed

lemma get_mapped_sum_distinct:
  "get_mapped_sum mapf data = Inr mapped \<Longrightarrow> distinct (keys mapped)"
  using loop_distinct [of mapf data "keys data" "[]" mapped]
  by (simp add: get_mapped_sum_def keys_def)

lemma loop_sum:
  "get_mapped_sum_loop mapf data ks acc = Inr mapped \<Longrightarrow>
     \<exists>ns. map (coerce_at data) ks = map Inr ns
        \<and> sum_list (map snd mapped) = sum_list (map snd acc) + sum_list ns"
proof (induction ks arbitrary: acc)
  case Nil
  then show ?case by simp
next
  case (Cons k ks)
  from Cons.prems obtain g v n where
    v: "getitem data k = Inr v" and n: "py_int v = Inr n"
    and rest: "get_mapped_sum_loop mapf data ks (dict_add g n acc) = Inr mapped"
    by (auto split: sum.splits)
  from Cons.IH [OF rest] obtain ns where
    ns: "map (coerce_at data) ks = map Inr ns"
    and s: "sum_list (map snd mapped) = sum_list (map snd (dict_add g n acc)) + sum_list ns"
    by auto
  have "map (coerce_at data) (k # ks) = map Inr (n # ns)"
    using v n ns by (simp add: coerce_at_def)
  moreover have "sum_list (map snd mapped) = sum_list (map snd acc) + sum_list (n # ns)"
    using s by (simp add: dict_add_sum)
  ultimately show ?case by blast
qed

lemma coerce_at_keys:
  assumes "distinct (map fst d)"
  shows "map (coerce_at d) (map fst d) = map (\<lambda>p. py_int (snd p)) d"
proof -
  have "\<And>p. p \<in> set d \<Longrightarrow> getitem d (fst p) = Inr (snd p)"
    using assms by (auto simp: getitem_def)
  then show ?thesis by (simp add: coerce_at_def)
qed

lemma getitem_in:
  assumes "k \<in> set (keys d)"
  shows "\<exists>v. getitem d k = Inr v \<and> v \<in> set (values_of d)"
proof -
  from assms have "map_of d k \<noteq> None"
    by (simp add: keys_def map_of_eq_None_iff)
  then obtain v where v: "map_of d k = Some v" by blast
  then have "(k, v) \<in> set d" by (rule map_of_SomeD)
  then have "v \<in> set (values_of d)" by (force simp: values_of_def)
  with v show ?thesis by (simp add: getitem_def)
qed

lemma py_int_error: "py_int v = Inl e \<Longrightarrow> e = ValueConversion"
  by (cases v) (auto simp: int_of_str_def split: list.splits if_splits option.splits)

lemma strptime_error: "strptime s = Inl e \<Longrightarrow> e = FormatError"
  by (auto simp: strptime_def split: option.splits prod.splits if_splits)

lemma weekday_id_error: "weekday_id s = Inl e \<Longrightarrow> e = FormatError"
  by (auto simp: weekday_id_def split: sum.splits dest: strptime_error)

lemma loop_fails:
  "k \<in> set ks \<Longrightarrow> mapf k = Inl e \<Longrightarrow> \<exists>e'. get_mapped_sum_loop mapf data ks acc = Inl e'"
proof (induction ks arbitrary: acc)
  case Nil
  then show ?case by simp
next
  case (Cons a ks)
  show ?case
  proof (cases "a = k")
    case True
    then show ?thesis using Cons.prems(2) by simp
  next
    case False
    then have "k \<in> set ks" using Cons.prems(1) by simp
    from Cons.IH [OF this Cons.prems(2)] show ?thesis
      by (simp split: sum.splits)
  qed
qed

lemma loop_error_source:
  assumes "get_mapped_sum_loop mapf data ks acc = Inl e"
    and "set ks \<subseteq> set (keys data)"
  shows "(\<exists>k\<in>set ks. mapf k = Inl e)
           \<or> (e = ValueConversion \<and> (\<exists>v\<in>set (values_of data). py_int v = Inl e))"
  using assms
proof (induction ks arbitrary: acc)
  case Nil
  then show ?case by simp
next
  case (Cons k ks)
  from Cons.prems(2) have kin: "k \<in> set (keys data)" and sub: "set ks \<subseteq> set (keys data)"
    by simp_all
  from getitem_in [OF kin] obtain v where v: "getitem data k = Inr v" "v \<in> set (values_of data)"
    by blast
  show ?case
  proof (cases "mapf k")
    case (Inl e')
    then show ?thesis using Cons.prems(1) by simp
  next
    case (Inr g)
    show ?thesis
    proof (cases "py_int v")
      case (Inl e')
      then have "e' = e" using Cons.prems(1) Inr v by simp
      then show ?thesis using Inl v py_int_error [of v e] by auto
    next
      case (Inr n)
      then have "get_mapped_sum_loop mapf data ks (dict_add g n acc) = Inl e"
        using Cons.prems(1) \<open>mapf k = Inr g\<close> v by simp
      from Cons.IH [OF this sub] show ?thesis by auto
    qed
  qed
qed

lemma loop_total:
  assumes "\<forall>k\<in>set ks. \<exists>g. mapf k = Inr g"
    and "set ks \<subseteq> set (keys data)"
    and "\<forall>v\<in>set (values_of data). \<exists>n. py_int v = Inr n"
  shows "\<exists>m. get_mapped_sum_loop mapf data ks acc = Inr m"
proof (cases "get_mapped_sum_loop mapf data ks acc")
  case (Inl e)
  from loop_error_source [OF Inl assms(2)] assms(1,3) show ?thesis by auto
next
  case (Inr m)
  then show ?thesis by blast
qed

text \<open>
  Claim C1 (conservation of the total). For a dictionary \<open>data\<close> and any classification
  function \<open>mapf\<close>: when the Grouping Aggregator returns a grouped mapping, every value
  of \<open>data\<close> was coerced to an integer by \<^verbatim>\<open>int()\<close>, and the values of the grouped
  mapping sum to the sum of these coerced integers.
\<close>

theorem get_mapped_sum_conserves_total:
  assumes "distinct (keys data)" and "get_mapped_sum mapf data = Inr mapped"
  shows "\<exists>ns. map py_int (values_of data) = map Inr ns
            \<and> sum_list (values_of mapped) = sum_list ns"
proof -
  have l: "get_mapped_sum_loop mapf data (keys data) [] = Inr mapped"
    using assms(2) by (simp add: get_mapped_sum_def)
  from loop_sum [OF l] obtain ns where
    ns: "map (coerce_at data) (keys data) = map Inr ns"
    and s: "sum_list (map snd mapped) = sum_list ns"
    by auto
  have "map py_int (values_of data) = map Inr ns"
    using ns coerce_at_keys [of data] assms(1) by (simp add: keys_def values_of_def)
  then show ?thesis using s by (auto simp: values_of_def)
qed

theorem get_mapped_sum_conserves_total_witness:
  "distinct (keys [(''2024-01-01'', JInt 3), (''2024-01-15'', JStr ''4''), (''2024-02-01'', JInt 5)])
   \<and> get_mapped_sum month_id
        [(''2024-01-01'', JInt 3), (''2024-01-15'', JStr ''4''), (''2024-02-01'', JInt 5)]
       = Inr [(''2024-01'', 7), (''2024-02'', 5)]
   \<and> (\<exists>ns. map py_int
              (values_of [(''2024-01-01'', JInt 3), (''2024-01-15'', JStr ''4''),
                          (''2024-02-01'', JInt 5)]) = map Inr ns
          \<and> sum_list (values_of [(''2024-01'', 7), (''2024-02'', 5)]) = sum_list ns)"
proof -
  have d: "distinct (keys [(''2024-01-01'', JInt 3), (''2024-01-15'', JStr ''4''),
                           (''2024-02-01'', JInt 5)])"
    by code_simp
  have g: "get_mapped_sum month_id
             [(''2024-01-01'', JInt 3), (''2024-01-15'', JStr ''4''), (''2024-02-01'', JInt 5)]
           = Inr [(''2024-01'', 7), (''2024-02'', 5)]"
    by code_simp
  from get_mapped_sum_conserves_total [OF d g] d g show ?thesis by blast
qed

text \<open>
  Claim C2 as stated fails for the month classifier: the key \<^verbatim>\<open>"2024"\<close> is shorter
  than 10 characters, and the aggregator returns a group under the key \<^verbatim>\<open>"2024"\<close>
  instead of failing.
\<close>

theorem month_classifier_accepts_short_key:
  "length ''2024'' < 10
   \<and> get_mapped_sum month_id [(''2024'', JInt 1)] = Inr [(''2024'', 1)]
   \<and> get_mapped_sum month_id [(''2024'', JInt 1)] \<noteq> Inl FormatError"
  by code_simp

text \<open>
  Claim C2, amended. With the weekday classifier, a mapping that has a key rejected by
  \<^verbatim>\<open>strptime\<close> makes the Grouping Aggregator fail, and the failure is a FormatError
  when every value of the mapping coerces to an integer. The month classifier is the
  slice of the first 7 characters, which never raises: with it the aggregator never
  fails with a FormatError, whatever the keys are.
\<close>

theorem key_format_errors:
  "(k \<in> set (keys data) \<and> strptime k = Inl FormatError \<longrightarrow>
      (\<exists>e. get_mapped_sum weekday_id data = Inl e)
      \<and> ((\<forall>v\<in>set (values_of data). \<exists>n. py_int v = Inr n)
           \<longrightarrow> get_mapped_sum weekday_id data = Inl FormatError))
   \<and> month_id k = Inr (take 7 k)
   \<and> get_mapped_sum month_id data \<noteq> Inl FormatError"
proof -
  have month: "get_mapped_sum month_id data \<noteq> Inl FormatError"
  proof
    assume "get_mapped_sum month_id data = Inl FormatError"
    then have "get_mapped_sum_loop month_id data (keys data) [] = Inl FormatError"
      by (simp add: get_mapped_sum_def)
    from loop_error_source [OF this] show False
      by (auto simp: month_id_def)
  qed
  have weekday_fail: "\<exists>e. get_mapped_sum weekday_id data = Inl e"
    if "k \<in> set (keys data)" "strptime k = Inl FormatError"
  proof -
    from that(2) have "weekday_id k = Inl FormatError" by (simp add: weekday_id_def)
    from loop_fails [of k "keys data" weekday_id FormatError data "[]", OF that(1) this]
    show ?thesis by (simp add: get_mapped_sum_def)
  qed
  have weekday_kind: "get_mapped_sum weekday_id data = Inl FormatError"
    if "k \<in> set (keys data)" "strptime k = Inl FormatError"
      "\<forall>v\<in>set (values_of data). \<exists>n. py_int v = Inr n"
  proof -
    from weekday_fail [OF that(1,2)] obtain e where
      e: "get_mapped_sum_loop weekday_id data (keys data) [] = Inl e"
      by (auto simp: get_mapped_sum_def)
    from loop_error_source [OF e] that(3) have "\<exists>k\<in>set (keys data). weekday_id k = Inl e"
      by auto
    then have "e = FormatError" by (auto dest: weekday_id_error)
    with e show ?thesis by (simp add: get_mapped_sum_def)
  qed
  show ?thesis using month weekday_fail weekday_kind by (simp add: month_id_def)
qed

theorem key_format_errors_witness:
  "''2024'' \<in> set (keys [(''2024-01-01'', JInt 1), (''2024'', JInt 2)])
   \<and> strptime ''2024'' = Inl FormatError
   \<and> values_of [(''2024-01-01'', JInt 1), (''2024'', JInt 2)] = [JInt 1, JInt 2]
   \<and> py_int (JInt 1) = Inr 1 \<and> py_int (JInt 2) = Inr 2
   \<and> get_mapped_sum weekday_id [(''2024-01-01'', JInt 1), (''2024'', JInt 2)] = Inl FormatError
   \<and> get_mapped_sum month_id [(''2024-01-01'', JInt 1), (''2024'', JInt 2)] \<noteq> Inl FormatError"
proof -
  have k: "''2024'' \<in> set (keys [(''2024-01-01'', JInt 1), (''2024'', JInt 2)])"
    by (simp add: keys_def)
  have p: "strptime ''2024'' = Inl FormatError"
    by code_simp
  have v: "\<forall>v\<in>set (values_of [(''2024-01-01'', JInt 1), (''2024'', JInt 2)]). \<exists>n. py_int v = Inr n"
    by (simp add: values_of_def)
  from key_format_errors [of "''2024''" "[(''2024-01-01'', JInt 1), (''2024'', JInt 2)]"] k p v
  show ?thesis by (simp add: values_of_def)
qed

section \<open>Properties of the Series Builder\<close>




lemma series_builder_eq:
  "series_builder mapped = (map fst (sort mapped), map snd (sort mapped))"
  by (simp add: series_builder_def split_tuples_def py_sorted_def items_def)




text \<open>
  Claim C10. The Series Builder decomposes the sorted item list: the two sequences have
  equal length, every pair \<open>(keys[i], values[i])\<close> is an item of the input mapping, and
  zipping the two sequences gives back the sorted items, so exactly the item set of the
  input.
\<close>

theorem series_builder_decomposes:
  assumes "series_builder mapped = (ks, vs)"
  shows "length ks = length vs
       \<and> (\<forall>i<length ks. (ks ! i, vs ! i) \<in> set (items mapped))
       \<and> set (zip ks vs) = set (items mapped)
       \<and> zip ks vs = py_sorted (items mapped)"
proof -
  from assms have ks: "ks = map fst (sort mapped)" and vs: "vs = map snd (sort mapped)"
    by (simp_all add: series_builder_eq)
  have z: "zip ks vs = sort mapped" by (simp add: ks vs zip_map_fst_snd)
  have idx: "(ks ! i, vs ! i) \<in> set mapped" if "i < length ks" for i
  proof -
    from that have i: "i < length (sort mapped)" by (simp add: ks)
    then have "sort mapped ! i \<in> set (sort mapped)" by (rule nth_mem)
    then show ?thesis using i by (simp add: ks vs)
  qed
  show ?thesis using z idx by (simp add: ks vs items_def py_sorted_def)
qed

theorem series_builder_decomposes_witness:
  "series_builder [(3::int, 5), (0, 7), (6, 1)] = ([0, 3, 6], [7, 5, 1])
   \<and> ([0, 3, 6::int] ! 2, [7, 5, 1::int] ! 2) \<in> set (items [(3, 5), (0, 7), (6, 1)])
   \<and> set (zip [0, 3, 6::int] [7, 5, 1::int]) = set (items [(3, 5), (0, 7), (6, 1)])"
proof -
  have s: "series_builder [(3::int, 5), (0, 7), (6, 1)] = ([0, 3, 6], [7, 5, 1])"
    by code_simp
  note t = series_builder_decomposes [OF s]
  from t have idx: "\<forall>i<length [0, 3, 6::int].
                ([0, 3, 6::int] ! i, [7, 5, 1::int] ! i) \<in> set (items [(3, 5), (0, 7), (6, 1)])"
    and z: "set (zip [0, 3, 6::int] [7, 5, 1::int]) = set (items [(3, 5), (0, 7), (6, 1)])"
    by blast+
  have i2: "([0, 3, 6::int] ! 2, [7, 5, 1::int] ! 2) \<in> set (items [(3, 5), (0, 7), (6, 1)])"
    using idx [rule_format, of 2] by simp
  show ?thesis using s i2 z by blast
qed

text \<open>
  Claim C7. For empty \<^verbatim>\<open>messages_sent\<close> and \<^verbatim>\<open>messages_received\<close> the grouping step
  does not raise: the monthly aggregation of the empty mapping is the empty grouped
  mapping, its key and value series are empty, and the message totals log 0 sent and
  0 received.
\<close>

theorem empty_messages:
  "get_mapped_sum month_id [] = Inr []
   \<and> series_builder ([] :: (string \<times> int) list) = ([], [])
   \<and> messages_total [] []
       = ([''--- Message Statistics ---'', ''Send:     0'', ''Received: 0'', ''''], None)"
  by code_simp

section \<open>Properties of the report sections\<close>

lemma gt_zero_error: "gt_zero v = Inl e \<Longrightarrow> e = TypeError"
  by (cases v) (simp_all add: gt_zero_def)

lemma positive_values_error: "positive_values vs = Inl e \<Longrightarrow> e = TypeError"
  by (induction vs) (auto split: sum.splits dest: gt_zero_error)

lemma positive_values_all_int:
  "positive_values vs = Inr r \<Longrightarrow> \<forall>v\<in>set vs. \<exists>n. v = JInt n"
proof (induction vs arbitrary: r)
  case Nil
  then show ?case by simp
next
  case (Cons v vs)
  from Cons.prems obtain b r' where b: "gt_zero v = Inr b" and r': "positive_values vs = Inr r'"
    by (auto split: sum.splits)
  from b have "\<exists>n. v = JInt n" by (cases v) (simp_all add: gt_zero_def)
  with Cons.IH [OF r'] show ?case by simp
qed

lemma positive_values_str:
  "JStr s \<in> set vs \<Longrightarrow> positive_values vs = Inl TypeError"
proof -
  assume s: "JStr s \<in> set vs"
  show ?thesis
  proof (cases "positive_values vs")
    case (Inl e)
    then show ?thesis by (simp add: positive_values_error)
  next
    case (Inr r)
    from positive_values_all_int [OF Inr] s show ?thesis by auto
  qed
qed

lemma py_min_nonempty: "xs \<noteq> [] \<Longrightarrow> \<exists>m. py_min xs = Inr m"
  by (cases xs) (simp_all add: py_min_def)

lemma py_max_nonempty: "xs \<noteq> [] \<Longrightarrow> \<exists>m. py_max xs = Inr m"
  by (cases xs) (simp_all add: py_max_def)

lemma general_info_positive_error:
  assumes "d \<noteq> []" and "positive_values (values_of d) = Inl e"
  shows "general_info d = ([], Some e)"
proof -
  from assms(1) have "keys d \<noteq> []" by (simp add: keys_def)
  then obtain lo hi where "py_min (keys d) = Inr lo" "py_max (keys d) = Inr hi"
    using py_min_nonempty py_max_nonempty by blast
  then show ?thesis using assms(2) by (simp add: general_info_def)
qed

lemma general_info_done_positive:
  assumes "snd (general_info d) = None"
  shows "\<exists>r. positive_values (values_of d) = Inr r"
proof (cases "positive_values (values_of d)")
  case (Inl e)
  then have "snd (general_info d) \<noteq> None"
    by (simp add: general_info_def Let_def split: sum.splits)
  with assms show ?thesis by simp
next
  case (Inr r)
  then show ?thesis by blast
qed

text \<open>
  Claim C8. For \<^verbatim>\<open>app_opens = {"2024-01-01": 1, "2024-01-02": 0, "2024-01-03": 1}\<close> the
  General Info section logs a day span of 2, 2 used days, 0 unused days and a mean of
  1.0 opens per used day, and does not raise.
\<close>

theorem general_info_example:
  "general_info [(''2024-01-01'', JInt 1), (''2024-01-02'', JInt 0), (''2024-01-03'', JInt 1)]
     = ([''--- General Info ---'',
         ''Start Date: 2024-01-01'',
         ''End Date:   2024-01-03'',
         ''Days:       2'',
         ''  - used:   2'',
         ''  - unused: 0'',
         ''Av. app-open per usage-day: 1.0'',
         ''''], None)"
  by code_simp

text \<open>
  Claim C6. For \<^verbatim>\<open>swipes_likes = {"2024-01-01": 10}\<close>,
  \<^verbatim>\<open>swipes_passes = {"2024-01-01": 5}\<close> and \<^verbatim>\<open>matches = {"2024-01-01": 2}\<close> the totals
  log 15 swipes, likes as 66.7% of swipes, matches as 13.3% of swipes and as 20.0% of
  likes; the percentages are the doubles \<^verbatim>\<open>a / b * 100\<close> formatted to one decimal.
\<close>

theorem swipes_total_example:
  "swipes_total [(''2024-01-01'', JInt 10)] [(''2024-01-01'', JInt 5)] [(''2024-01-01'', JInt 2)]
     = ([''--- Swipe Statistics ---'',
         ''Total Swipes: 15'',
         ''- Passes: 5 (33.3%)'',
         ''- Likes: 10 (66.7%)'',
         ''- Matches: 2 (13.3% of swipes, 20.0% of likes)'',
         ''''], None)"
  by code_simp

text \<open>
  Claim C9. Among the JSON values of the model (integers, strings, null), the General
  Info section completes only when every value of \<^verbatim>\<open>app_opens\<close> is an integer: a
  count encoded as a string makes the comparison \<^verbatim>\<open>v > 0\<close> raise a TypeError before
  anything is logged. The Grouping Aggregator accepts the same mapping whenever
  \<^verbatim>\<open>int()\<close> coerces every value, as it does for numeric strings.
\<close>

theorem general_info_needs_integers:
  "(snd (general_info d) = None \<longrightarrow> (\<forall>v\<in>set (values_of d). \<exists>n. v = JInt n))
   \<and> ((k, JStr s) \<in> set d \<longrightarrow> general_info d = ([], Some TypeError))
   \<and> ((\<forall>v\<in>set (values_of d). \<exists>n. py_int v = Inr n)
        \<longrightarrow> (\<exists>mapped. get_mapped_sum month_id d = Inr mapped))"
proof -
  have a: "\<forall>v\<in>set (values_of d). \<exists>n. v = JInt n" if "snd (general_info d) = None"
    using general_info_done_positive [OF that] positive_values_all_int by blast
  have b: "general_info d = ([], Some TypeError)" if "(k, JStr s) \<in> set d"
  proof -
    from that have ne: "d \<noteq> []" by auto
    from that have "JStr s \<in> set (values_of d)" by (force simp: values_of_def)
    then have "positive_values (values_of d) = Inl TypeError" by (rule positive_values_str)
    with ne show ?thesis by (rule general_info_positive_error)
  qed
  have c: "\<exists>mapped. get_mapped_sum month_id d = Inr mapped"
    if "\<forall>v\<in>set (values_of d). \<exists>n. py_int v = Inr n"
    unfolding get_mapped_sum_def
    by (rule loop_total) (use that in \<open>simp_all add: month_id_def\<close>)
  show ?thesis using a b c by blast
qed

theorem general_info_needs_integers_witness:
  "snd (general_info [(''2024-01-01'', JInt 1)]) = None
   \<and> (\<exists>n. JInt 1 = JInt n)
   \<and> (''2024-01-01'', JStr ''3'') \<in> set [(''2024-01-01'', JStr ''3'')]
   \<and> general_info [(''2024-01-01'', JStr ''3'')] = ([], Some TypeError)
   \<and> py_int (JStr ''3'') = Inr 3
   \<and> (\<exists>mapped. get_mapped_sum month_id [(''2024-01-01'', JStr ''3'')] = Inr mapped)"
proof -
  have h1: "snd (general_info [(''2024-01-01'', JInt 1)]) = None"
    by code_simp
  have h2: "(''2024-01-01'', JStr ''3'') \<in> set [(''2024-01-01'', JStr ''3'')]"
    by simp
  have c: "py_int (JStr ''3'') = Inr 3"
    by code_simp
  then have h3: "\<forall>v\<in>set (values_of [(''2024-01-01'', JStr ''3'')]). \<exists>n. py_int v = Inr n"
    by (simp add: values_of_def)
  from general_info_needs_integers [of "[(''2024-01-01'', JInt 1)]"] h1
  have r1: "\<exists>n. JInt 1 = JInt n"
    by blast
  from general_info_needs_integers
         [of "[(''2024-01-01'', JStr ''3'')]" "''2024-01-01''" "''3''"] h2 h3
  have r2: "general_info [(''2024-01-01'', JStr ''3'')] = ([], Some TypeError)"
    and r3: "\<exists>mapped. get_mapped_sum month_id [(''2024-01-01'', JStr ''3'')] = Inr mapped"
    by blast+
  show ?thesis using h1 r1 h2 r2 c r3 by blast
qed

lemma py_min_error: "py_min xs = Inl e \<Longrightarrow> e = EmptySequence"
  by (cases xs) (simp_all add: py_min_def)

lemma py_max_error: "py_max xs = Inl e \<Longrightarrow> e = EmptySequence"
  by (cases xs) (simp_all add: py_max_def)

lemma positive_ints_error:
  "positive_ints vs = Inl e \<Longrightarrow> e = TypeError \<or> e = ValueConversion"
  by (induction vs) (auto split: sum.splits if_splits dest: gt_zero_error py_int_error)

lemma no_positive_values:
  "\<forall>v\<in>set vs. \<exists>n. v = JInt n \<and> n \<le> 0
     \<Longrightarrow> positive_values vs = Inr [] \<and> positive_ints vs = Inr []"
  by (induction vs) (auto simp: gt_zero_def)

lemma format_d_0: "format_d 0 = ''0''"
  by code_simp

lemma format_1f_nan: "format_1f (np_mean []) = ''nan''"
  by code_simp

lemma general_info_error_kinds:
  "snd (general_info d) = Some e
     \<Longrightarrow> e = EmptySequence \<or> e = TypeError \<or> e = FormatError \<or> e = ValueConversion"
  by (auto simp: general_info_def Let_def split: sum.splits
           dest: py_min_error py_max_error positive_values_error strptime_error
                 positive_ints_error)

text \<open>
  Claim C4 as stated fails: with \<^verbatim>\<open>app_opens = {"2024-01-01": 0}\<close> there is no used day,
  and the General Info section completes; \<^verbatim>\<open>np.mean\<close> of the empty list is
  \<^verbatim>\<open>nan\<close>, which is logged.
\<close>

theorem general_info_unused_only:
  "positive_values (values_of [(''2024-01-01'', JInt 0)]) = Inr []
   \<and> general_info [(''2024-01-01'', JInt 0)]
     = ([''--- General Info ---'',
         ''Start Date: 2024-01-01'',
         ''End Date:   2024-01-01'',
         ''Days:       0'',
         ''  - used:   0'',
         ''  - unused: 0'',
         ''Av. app-open per usage-day: nan'',
         ''''], None)"
  by code_simp

text \<open>
  Claim C4, amended. The General Info section never raises a ZeroDivisionError. When no
  entry of \<^verbatim>\<open>app_opens\<close> has a positive count (all counts are integers \<open>\<le> 0\<close>) and
  the smallest and the largest date key parse, the section completes: it logs 0 used
  days and the mean as \<^verbatim>\<open>nan\<close>. On the empty mapping it fails before that, with the
  ValueError of \<^verbatim>\<open>min()\<close> on an empty sequence.
\<close>

theorem general_info_no_used_days:
  "snd (general_info d) \<noteq> Some ZeroDivisionError
   \<and> general_info [] = ([], Some EmptySequence)
   \<and> ((\<forall>v\<in>set (values_of d). \<exists>n. v = JInt n \<and> n \<le> 0)
        \<and> py_min (keys d) = Inr lo \<and> py_max (keys d) = Inr hi
        \<and> strptime lo = Inr dlo \<and> strptime hi = Inr dhi
      \<longrightarrow> general_info d
            = ([''--- General Info ---'',
                ''Start Date: '' @ lo,
                ''End Date:   '' @ hi,
                ''Days:       '' @ format_d (toordinal dhi - toordinal dlo),
                ''  - used:   0'',
                ''  - unused: '' @ format_d (toordinal dhi - toordinal dlo),
                ''Av. app-open per usage-day: nan'',
                ''''], None))"
proof -
  have a: "snd (general_info d) \<noteq> Some ZeroDivisionError"
    using general_info_error_kinds [of d ZeroDivisionError] by auto
  have b: "general_info [] = ([], Some EmptySequence)"
    by (simp add: general_info_def keys_def py_min_def)
  have c: "general_info d
            = ([''--- General Info ---'',
                ''Start Date: '' @ lo,
                ''End Date:   '' @ hi,
                ''Days:       '' @ format_d (toordinal dhi - toordinal dlo),
                ''  - used:   0'',
                ''  - unused: '' @ format_d (toordinal dhi - toordinal dlo),
                ''Av. app-open per usage-day: nan'',
                ''''], None)"
    if "\<forall>v\<in>set (values_of d). \<exists>n. v = JInt n \<and> n \<le> 0"
      and "py_min (keys d) = Inr lo" and "py_max (keys d) = Inr hi"
      and "strptime lo = Inr dlo" and "strptime hi = Inr dhi"
  proof -
    from no_positive_values [OF that(1)]
    have p: "positive_values (values_of d) = Inr []" "positive_ints (values_of d) = Inr []"
      by simp_all
    show ?thesis
      by (simp add: general_info_def Let_def that(2-5) p format_d_0 format_1f_nan)
  qed
  show ?thesis using a b c by blast
qed

theorem general_info_no_used_days_witness:
  "values_of [(''2024-01-01'', JInt 0), (''2024-01-03'', JInt 0)] = [JInt 0, JInt 0]
   \<and> py_min (keys [(''2024-01-01'', JInt 0), (''2024-01-03'', JInt 0)]) = Inr ''2024-01-01''
   \<and> py_max (keys [(''2024-01-01'', JInt 0), (''2024-01-03'', JInt 0)]) = Inr ''2024-01-03''
   \<and> strptime ''2024-01-01'' = Inr \<lparr>year = 2024, month = 1, day = 1\<rparr>
   \<and> strptime ''2024-01-03'' = Inr \<lparr>year = 2024, month = 1, day = 3\<rparr>
   \<and> general_info [(''2024-01-01'', JInt 0), (''2024-01-03'', JInt 0)]
       = ([''--- General Info ---'',
           ''Start Date: '' @ ''2024-01-01'',
           ''End Date:   '' @ ''2024-01-03'',
           ''Days:       '' @ format_d (toordinal \<lparr>year = 2024, month = 1, day = 3\<rparr>
                                        - toordinal \<lparr>year = 2024, month = 1, day = 1\<rparr>),
           ''  - used:   0'',
           ''  - unused: '' @ format_d (toordinal \<lparr>year = 2024, month = 1, day = 3\<rparr>
                                        - toordinal \<lparr>year = 2024, month = 1, day = 1\<rparr>),
           ''Av. app-open per usage-day: nan'',
           ''''], None)"
proof -
  have v: "values_of [(''2024-01-01'', JInt 0), (''2024-01-03'', JInt 0)] = [JInt 0, JInt 0]"
    by (simp add: values_of_def)
  then have h: "\<forall>v\<in>set (values_of [(''2024-01-01'', JInt 0), (''2024-01-03'', JInt 0)]).
                  \<exists>n. v = JInt n \<and> n \<le> 0"
    by simp
  have lo: "py_min (keys [(''2024-01-01'', JInt 0), (''2024-01-03'', JInt 0)]) = Inr ''2024-01-01''"
    by code_simp
  have hi: "py_max (keys [(''2024-01-01'', JInt 0), (''2024-01-03'', JInt 0)]) = Inr ''2024-01-03''"
    by code_simp
  have dlo: "strptime ''2024-01-01'' = Inr \<lparr>year = 2024, month = 1, day = 1\<rparr>"
    by code_simp
  have dhi: "strptime ''2024-01-03'' = Inr \<lparr>year = 2024, month = 1, day = 3\<rparr>"
    by code_simp
  from general_info_no_used_days
         [of "[(''2024-01-01'', JInt 0), (''2024-01-03'', JInt 0)]"
             "''2024-01-01''" "''2024-01-03''"
             "\<lparr>year = 2024, month = 1, day = 1\<rparr>" "\<lparr>year = 2024, month = 1, day = 3\<rparr>"]
       h lo hi dlo dhi
  have "general_info [(''2024-01-01'', JInt 0), (''2024-01-03'', JInt 0)]
       = ([''--- General Info ---'',
           ''Start Date: '' @ ''2024-01-01'',
           ''End Date:   '' @ ''2024-01-03'',
           ''Days:       '' @ format_d (toordinal \<lparr>year = 2024, month = 1, day = 3\<rparr>
                                        - toordinal \<lparr>year = 2024, month = 1, day = 1\<rparr>),
           ''  - used:   0'',
           ''  - unused: '' @ format_d (toordinal \<lparr>year = 2024, month = 1, day = 3\<rparr>
                                        - toordinal \<lparr>year = 2024, month = 1, day = 1\<rparr>),
           ''Av. app-open per usage-day: nan'',
           ''''], None)"
    by blast
  then show ?thesis using v lo hi dlo dhi by blast
qed

lemma py_truediv_error:
  "py_truediv a b = Inl e \<Longrightarrow> (e = ZeroDivisionError \<and> b = 0) \<or> (e = OverflowError \<and> b \<noteq> 0)"
  by (auto simp: py_truediv_def split: if_splits pyfloat.splits)

lemma percent_error:
  "percent a b = Inl e \<Longrightarrow> (e = ZeroDivisionError \<and> b = 0) \<or> (e = OverflowError \<and> b \<noteq> 0)"
  by (auto simp: percent_def split: sum.splits dest: py_truediv_error)

lemma percent_zero_divisor: "percent a 0 = Inl ZeroDivisionError"
  by (simp add: percent_def py_truediv_def)

lemma double_of_1: "double_of 1 = Finite 1"
  by code_simp

lemma times_100_1: "times_100 (Finite 1) = Finite 100"
  by code_simp

lemma times_100_0: "times_100 (Finite 0) = Finite 0"
  by code_simp

lemma format_1f_100: "format_1f (Finite 100) = ''100.0''"
  by code_simp

lemma format_1f_0: "format_1f (Finite 0) = ''0.0''"
  by code_simp

lemma percent_self: "b \<noteq> 0 \<Longrightarrow> percent b b = Inr (Finite 100)"
  by (simp add: percent_def py_truediv_def double_of_1 times_100_1)

lemma times_100_negzero: "times_100 NegZero = NegZero"
  by (simp add: times_100_def)

lemma percent_of_zero:
  "b \<noteq> 0 \<Longrightarrow> percent 0 b = Inr (if b < 0 then NegZero else Finite 0)"
  by (simp add: percent_def py_truediv_def times_100_0 times_100_negzero)

lemma format_comma_d_0: "format_comma_d 0 = ''0''"
  by code_simp

text \<open>
  Claim C5. When the totals are integers and the total of swipes is zero, the first
  ratio raises ZeroDivisionError right after the line with the total. When the total of
  likes is zero and the total of swipes is not, the passes and likes lines are logged
  and the matches line raises: ZeroDivisionError from \<^verbatim>\<open>total_matches/total_likes\<close>,
  or OverflowError from \<^verbatim>\<open>total_matches/total_swipes\<close> when that quotient is too large
  for a double. In both cases the section ends with the exception and logs no line for
  the undefined ratio.
\<close>

theorem swipes_total_zero_division:
  assumes "py_sum (values_of likes) = Inr total_likes"
    and "py_sum (values_of passes) = Inr total_passes"
    and "py_sum (values_of matches) = Inr total_matches"
  shows "(total_likes + total_passes = 0 \<longrightarrow>
            swipes_total likes passes matches
              = ([''--- Swipe Statistics ---'', ''Total Swipes: 0''], Some ZeroDivisionError))
       \<and> (total_likes = 0 \<and> total_passes \<noteq> 0 \<longrightarrow>
            (\<exists>e. (e = ZeroDivisionError \<or> e = OverflowError)
               \<and> swipes_total likes passes matches
                   = ([''--- Swipe Statistics ---'',
                       replace_comma (''Total Swipes: '' @ format_comma_d total_passes),
                       replace_comma (''- Passes: '' @ format_comma_d total_passes
                                        @ '' (100.0%)''),
                       replace_comma (''- Likes: '' @ format_comma_d 0 @ '' (''
                                        @ format_1f (if total_passes < 0 then NegZero else Finite 0)
                                        @ ''%)'')],
                      Some e)))"
proof -
  have a: "swipes_total likes passes matches
             = ([''--- Swipe Statistics ---'', ''Total Swipes: 0''], Some ZeroDivisionError)"
    if "total_likes + total_passes = 0"
    by (simp add: swipes_total_def Let_def assms that percent_zero_divisor format_comma_d_0 replace_comma_def)
  have b: "\<exists>e. (e = ZeroDivisionError \<or> e = OverflowError)
               \<and> swipes_total likes passes matches
                   = ([''--- Swipe Statistics ---'',
                       replace_comma (''Total Swipes: '' @ format_comma_d total_passes),
                       replace_comma (''- Passes: '' @ format_comma_d total_passes
                                        @ '' (100.0%)''),
                       replace_comma (''- Likes: '' @ format_comma_d 0 @ '' (''
                                        @ format_1f (if total_passes < 0 then NegZero else Finite 0)
                                        @ ''%)'')],
                      Some e)"
    if z: "total_likes = 0" and nz: "total_passes \<noteq> 0"
  proof (cases "percent total_matches total_passes")
    case (Inl e)
    from percent_error [OF Inl] nz have "e = OverflowError" by simp
    then show ?thesis
      using Inl
      by (simp add: swipes_total_def Let_def assms z nz percent_self percent_of_zero
                    format_1f_100)
  next
    case (Inr q)
    then show ?thesis
      by (simp add: swipes_total_def Let_def assms z nz percent_self percent_of_zero
                    percent_zero_divisor format_1f_100)
  qed
  show ?thesis using a b by blast
qed

theorem swipes_total_zero_division_witness:
  "py_sum (values_of []) = Inr 0
   \<and> swipes_total [] [] []
       = ([''--- Swipe Statistics ---'', ''Total Swipes: 0''], Some ZeroDivisionError)
   \<and> py_sum (values_of [(''2024-01-01'', JInt 5)]) = Inr 5
   \<and> py_sum (values_of [(''2024-01-01'', JInt 2)]) = Inr 2
   \<and> (\<exists>e. (e = ZeroDivisionError \<or> e = OverflowError)
          \<and> swipes_total [] [(''2024-01-01'', JInt 5)] [(''2024-01-01'', JInt 2)]
              = ([''--- Swipe Statistics ---'',
                  replace_comma (''Total Swipes: '' @ format_comma_d 5),
                  replace_comma (''- Passes: '' @ format_comma_d 5 @ '' (100.0%)''),
                  replace_comma (''- Likes: '' @ format_comma_d 0 @ '' (''
                                   @ format_1f (if (5::int) < 0 then NegZero else Finite 0)
                                   @ ''%)'')],
                 Some e))"
proof -
  have s0: "py_sum (values_of []) = Inr 0"
    by (simp add: py_sum_def values_of_def)
  have s5: "py_sum (values_of [(''2024-01-01'', JInt 5)]) = Inr 5"
    by (simp add: py_sum_def values_of_def)
  have s2: "py_sum (values_of [(''2024-01-01'', JInt 2)]) = Inr 2"
    by (simp add: py_sum_def values_of_def)
  from swipes_total_zero_division [OF s0 s0 s0]
  have a: "swipes_total [] [] []
             = ([''--- Swipe Statistics ---'', ''Total Swipes: 0''], Some ZeroDivisionError)"
    by simp
  from swipes_total_zero_division [OF s0 s5 s2]
  have b: "\<exists>e. (e = ZeroDivisionError \<or> e = OverflowError)
          \<and> swipes_total [] [(''2024-01-01'', JInt 5)] [(''2024-01-01'', JInt 2)]
              = ([''--- Swipe Statistics ---'',
                  replace_comma (''Total Swipes: '' @ format_comma_d 5),
                  replace_comma (''- Passes: '' @ format_comma_d 5 @ '' (100.0%)''),
                  replace_comma (''- Likes: '' @ format_comma_d 0 @ '' (''
                                   @ format_1f (if (5::int) < 0 then NegZero else Finite 0)
                                   @ ''%)'')],
                 Some e)"
    by simp
  show ?thesis using s0 a s5 s2 b by blast
qed

end
